theory Spec2Isabelle
  imports Complex_Main
begin

section \<open>Data model of \<open>octant.misc\<close>\<close>

text \<open>
  The module \<open>src/octant/misc.py\<close> works on pandas frames, numpy arrays and xarray
  arrays. The embedding keeps what the functions read and write:
  \<^item> a row of an \<open>OctantTrack\<close> frame: longitude, latitude and the year and month of
    its time stamp (\<open>df.time.dt.year\<close>, \<open>df.time.dt.month\<close>);
  \<^item> a track: the list of its rows, in frame order;
  \<^item> the \<open>TrackRun\<close>: the attributes the module reads (\<open>is_categorised\<close>,
    \<open>cat_labels\<close>, the grouped tracks \<open>gb\<close>, the configuration \<open>conf\<close>) and the one
    it writes (\<open>themask\<close>);
  \<^item> floats as reals, Python integers as \<open>int\<close>;
  \<^item> every exception as a value of \<open>error\<close>, the result being \<open>error + 'a\<close>.
\<close>

datatype error =
    ArgumentError
  | UnboundLocalError
  | IndexError
  | ValueError
  | EmptyFrame

record row =
  lon :: real
  lat :: real
  year :: int
  month :: int

type_synonym octant_track = "row list"

text \<open>
  \<open>trackrun.conf\<close>: each of \<open>lon1\<close>, \<open>lon2\<close>, \<open>lat1\<close>, \<open>lat2\<close> is read with
  \<open>getattr(conf, name, None)\<close>, so an attribute is a number or absent.
\<close>

record run_conf =
  lon1 :: "real option"
  lon2 :: "real option"
  lat1 :: "real option"
  lat2 :: "real option"

record trackrun =
  is_categorised :: bool
  cat_labels :: "string list"
  gb :: "(nat \<times> octant_track) list"
  conf :: run_conf
  themask :: "real list list option"

section \<open>Python and numpy primitives\<close>

text \<open>
  \<open>str.upper\<close> on the ASCII letters. A character outside \<open>a..z\<close> is left as it is; no
  character other than \<open>m\<close> (\<open>w\<close>) has the upper-case form \<open>M\<close> (\<open>W\<close>), so the two
  comparisons of \<open>bin_count_tracks\<close> read the same on every string.
\<close>

definition upper_char :: "char \<Rightarrow> char" where
  "upper_char c =
     (let n = (of_char c :: nat) in if 97 \<le> n \<and> n \<le> 122 then char_of (n - 32) else c)"

definition upper :: "string \<Rightarrow> string" where
  "upper s = map upper_char s"

text \<open>
  \<open>Series.unique()\<close>: the distinct values in order of first appearance.
\<close>

fun unique_from :: "'a list \<Rightarrow> 'a list \<Rightarrow> 'a list" where
  "unique_from seen [] = []"
| "unique_from seen (x # xs) =
     (if x \<in> set seen then unique_from seen xs else x # unique_from (x # seen) xs)"

definition unique :: "'a list \<Rightarrow> 'a list" where
  "unique xs = unique_from [] xs"

text \<open>
  Indexing a numpy array or a list by an integer: a negative index counts from the end,
  an index outside the array raises \<open>IndexError\<close>.
\<close>

definition norm_index :: "nat \<Rightarrow> int \<Rightarrow> error + nat" where
  "norm_index n i =
     (if 0 \<le> i \<and> i < int n then Inr (nat i)
      else if i < 0 \<and> 0 \<le> i + int n then Inr (nat (i + int n))
      else Inl IndexError)"

definition py_index :: "'a list \<Rightarrow> int \<Rightarrow> error + 'a" where
  "py_index xs i = (case norm_index (length xs) i of Inl e \<Rightarrow> Inl e | Inr j \<Rightarrow> Inr (xs ! j))"

text \<open>\<open>counter[i] += 1\<close>\<close>

definition np_incr :: "int list \<Rightarrow> int \<Rightarrow> error + int list" where
  "np_incr counter i =
     (case norm_index (length counter) i of
        Inl e \<Rightarrow> Inl e
      | Inr j \<Rightarrow> Inr (counter[j := counter ! j + 1]))"

text \<open>\<open>np.zeros(n, dtype=int)\<close>: a negative size raises \<open>ValueError\<close>.\<close>

definition np_zeros :: "int \<Rightarrow> error + int list" where
  "np_zeros n = (if n < 0 then Inl ValueError else Inr (replicate (nat n) 0))"

section \<open>\<open>bin_count_tracks\<close>\<close>

definition track_months :: "octant_track \<Rightarrow> int list" where
  "track_months df = unique (map month df)"

definition track_years :: "octant_track \<Rightarrow> int list" where
  "track_years df = unique (map year df)"

text \<open>The loop \<open>for m in track_months: counter[m - 1] += 1\<close>.\<close>

fun month_loop :: "int list \<Rightarrow> int list \<Rightarrow> error + int list" where
  "month_loop counter [] = Inr counter"
| "month_loop counter (m # ms) =
     (case np_incr counter (m - 1) of
        Inl e \<Rightarrow> Inl e
      | Inr counter' \<Rightarrow> month_loop counter' ms)"

text \<open>The loop over the tracks of \<open>tr_obj.gb\<close> in the month branch.\<close>

fun month_tracks :: "int list \<Rightarrow> (nat \<times> octant_track) list \<Rightarrow> error + int list" where
  "month_tracks counter [] = Inr counter"
| "month_tracks counter ((k, df) # rest) =
     (case month_loop counter (track_months df) of
        Inl e \<Rightarrow> Inl e
      | Inr counter' \<Rightarrow> month_tracks counter' rest)"

text \<open>
  One pass of \<open>for i in range(n_winters)\<close> for one track. \<open>track_months[-1]\<close>,
  \<open>track_years[0]\<close> and \<open>track_years[-1]\<close> are read inside the loop body, as in the
  source.
\<close>

fun winter_loop ::
  "int list \<Rightarrow> int list \<Rightarrow> int \<Rightarrow> int list \<Rightarrow> int list \<Rightarrow> error + int list" where
  "winter_loop months years start_year counter [] = Inr counter"
| "winter_loop months years start_year counter (i # is) =
     (case py_index months (- 1) of
        Inl e \<Rightarrow> Inl e
      | Inr last_month \<Rightarrow>
          if last_month \<le> 6 then
            (case py_index years 0 of
               Inl e \<Rightarrow> Inl e
             | Inr first_year \<Rightarrow>
                 if first_year = i + start_year + 1 then
                   (case np_incr counter i of
                      Inl e \<Rightarrow> Inl e
                    | Inr counter' \<Rightarrow> winter_loop months years start_year counter' is)
                 else winter_loop months years start_year counter is)
          else
            (case py_index years (- 1) of
               Inl e \<Rightarrow> Inl e
             | Inr last_year \<Rightarrow>
                 if last_year = i + start_year then
                   (case np_incr counter i of
                      Inl e \<Rightarrow> Inl e
                    | Inr counter' \<Rightarrow> winter_loop months years start_year counter' is)
                 else winter_loop months years start_year counter is))"

text \<open>The loop over the tracks of \<open>tr_obj.gb\<close> in the winter branch.\<close>

fun winter_tracks ::
  "int \<Rightarrow> int \<Rightarrow> int list \<Rightarrow> (nat \<times> octant_track) list \<Rightarrow> error + int list" where
  "winter_tracks start_year n_winters counter [] = Inr counter"
| "winter_tracks start_year n_winters counter ((k, df) # rest) =
     (case winter_loop (track_months df) (track_years df) start_year counter
             [0 .. n_winters - 1] of
        Inl e \<Rightarrow> Inl e
      | Inr counter' \<Rightarrow> winter_tracks start_year n_winters counter' rest)"

text \<open>
  The local variable \<open>counter\<close> is \<open>None\<close> until one of the two branches assigns it;
  \<open>return counter\<close> on an unassigned local raises \<open>UnboundLocalError\<close>. The two
  \<open>if\<close> statements are run one after the other, as in the source.
\<close>

definition bin_count_tracks :: "trackrun \<Rightarrow> int \<Rightarrow> int \<Rightarrow> string \<Rightarrow> error + int list" where
  "bin_count_tracks tr_obj start_year n_winters by_arg =
     (case (if upper by_arg = ''M'' then
              (case np_zeros 12 of
                 Inl e \<Rightarrow> Inl e
               | Inr zeros \<Rightarrow> map_sum id Some (month_tracks zeros (gb tr_obj)))
            else Inr None) of
        Inl e \<Rightarrow> Inl e
      | Inr counter \<Rightarrow>
          (case (if upper by_arg = ''W'' then
                   (case np_zeros n_winters of
                      Inl e \<Rightarrow> Inl e
                    | Inr zeros \<Rightarrow>
                        map_sum id Some (winter_tracks start_year n_winters zeros (gb tr_obj)))
                 else Inr counter) of
             Inl e \<Rightarrow> Inl e
           | Inr None \<Rightarrow> Inl UnboundLocalError
           | Inr (Some c) \<Rightarrow> Inr c))"

section \<open>\<open>calc_all_dens\<close>\<close>

text \<open>
  The \<open>subsets\<close> argument as Python passes it: \<open>None\<close>, a bare string, a value that is
  not iterable (an integer stands for these), or a list of subset labels.
\<close>

datatype subsets_arg = PyNone | PyStr string | PyInt int | PyList "string list"

fun is_iterable :: "subsets_arg \<Rightarrow> bool" where
  "is_iterable PyNone = False"
| "is_iterable (PyStr s) = True"
| "is_iterable (PyInt n) = False"
| "is_iterable (PyList ls) = True"

fun is_str :: "subsets_arg \<Rightarrow> bool" where
  "is_str (PyStr s) = True"
| "is_str other = False"

definition DENSITY_TYPES :: "string list" where
  "DENSITY_TYPES = [''point'', ''track'', ''genesis'', ''lysis'']"

type_synonym grid = "real list list"

text \<open>
  \<open>TrackRun.density(lon2d, lat2d, by=by, subset=subset)\<close> is a method of
  \<open>octant.core\<close>, which is not part of the module: it is an argument of the model, taking
  the two grids, the density type and the subset label and returning a two-dimensional
  array or raising. Each call is recorded as \<open>(subset, by)\<close> in a call log, so that the
  order and the number of the density computations can be stated.
\<close>

type_synonym density_fn = "grid \<Rightarrow> grid \<Rightarrow> string \<Rightarrow> string \<Rightarrow> error + grid"

type_synonym density_call = "string \<times> string"

text \<open>
  The returned \<open>xarray.DataArray\<close>: its name, the coordinates of the two leading
  dimensions \<open>subset\<close> and \<open>dens_type\<close>, and its values, one two-dimensional
  (latitude, longitude) array for each pair of positions on the two leading axes.
\<close>

record density_array =
  da_name :: string
  subset_coord :: "string list"
  dens_type_coord :: "string list"
  da_values :: "grid list list"

text \<open>
  \<open>xr.concat(objs, dim)\<close> along a new leading dimension stacks the objects in the order
  of the list; with no object to concatenate it raises \<open>ValueError\<close>. The density results
  of one call of \<open>calc_all_dens\<close> are computed on the same grids and are stacked as they
  are.
\<close>

definition xr_concat :: "'a list \<Rightarrow> error + 'a list" where
  "xr_concat objs = (case objs of [] \<Rightarrow> Inl ValueError | x # xs \<Rightarrow> Inr objs)"

text \<open>The inner loop \<open>for by in density_types: list2.append(tr_obj.density(...))\<close>.\<close>

fun dens_type_loop ::
  "density_fn \<Rightarrow> grid \<Rightarrow> grid \<Rightarrow> string \<Rightarrow> string list \<Rightarrow> grid list \<Rightarrow> density_call list
     \<Rightarrow> (error + grid list) \<times> density_call list" where
  "dens_type_loop density lon2d lat2d subset_arg [] list2 calls = (Inr list2, calls)"
| "dens_type_loop density lon2d lat2d subset_arg (by_arg # rest) list2 calls =
     (case density lon2d lat2d by_arg subset_arg of
        Inl e \<Rightarrow> (Inl e, calls @ [(subset_arg, by_arg)])
      | Inr d \<Rightarrow>
          dens_type_loop density lon2d lat2d subset_arg rest (list2 @ [d])
            (calls @ [(subset_arg, by_arg)]))"

text \<open>
  The outer loop \<open>for subset in subsets\<close>, with
  \<open>list1.append(xr.concat(list2, dim=dens_dim))\<close> at the end of its body.
\<close>

fun subset_loop ::
  "density_fn \<Rightarrow> grid \<Rightarrow> grid \<Rightarrow> string list \<Rightarrow> string list \<Rightarrow> grid list list
     \<Rightarrow> density_call list \<Rightarrow> (error + grid list list) \<times> density_call list" where
  "subset_loop density lon2d lat2d density_types [] list1 calls = (Inr list1, calls)"
| "subset_loop density lon2d lat2d density_types (subset_arg # rest) list1 calls =
     (case dens_type_loop density lon2d lat2d subset_arg density_types [] calls of
        (Inl e, calls') \<Rightarrow> (Inl e, calls')
      | (Inr list2, calls') \<Rightarrow>
          (case xr_concat list2 of
             Inl e \<Rightarrow> (Inl e, calls')
           | Inr stacked \<Rightarrow>
               subset_loop density lon2d lat2d density_types rest (list1 @ [stacked]) calls'))"

text \<open>
  \<open>calc_all_dens\<close> returns its result (or the exception) together with the log of the
  density calls it made. After the first \<open>if\<close>, \<open>subsets\<close> is a list of labels or still
  \<open>None\<close>. With \<open>None\<close>, line 61 builds \<open>xr.DataArray(dims="subset", data=None)\<close>, a
  zero-dimensional value under one dimension name, which raises \<open>ValueError\<close>; the loop
  of line 64 over \<open>None\<close> would raise as well. No density is computed on that path.
\<close>

definition calc_all_dens ::
  "density_fn \<Rightarrow> trackrun \<Rightarrow> grid \<Rightarrow> grid \<Rightarrow> subsets_arg \<Rightarrow> string list
     \<Rightarrow> (error + density_array) \<times> density_call list" where
  "calc_all_dens density tr_obj lon2d lat2d subsets density_types =
     (case (if subsets = PyNone then
              (if is_categorised tr_obj then Inr (PyList (cat_labels tr_obj)) else Inr PyNone)
            else if \<not> is_iterable subsets \<or> is_str subsets then Inl ArgumentError
            else Inr subsets) of
        Inl e \<Rightarrow> (Inl e, [])
      | Inr (PyList labels) \<Rightarrow>
          (case subset_loop density lon2d lat2d density_types labels [] [] of
             (Inl e, calls) \<Rightarrow> (Inl e, calls)
           | (Inr list1, calls) \<Rightarrow>
               (case xr_concat list1 of
                  Inl e \<Rightarrow> (Inl e, calls)
                | Inr stacked \<Rightarrow>
                    (Inr \<lparr>da_name = ''density'', subset_coord = labels,
                          dens_type_coord = density_types, da_values = stacked\<rparr>, calls)))
      | Inr other \<Rightarrow> (Inl ValueError, []))"

definition has_shape :: "grid \<Rightarrow> nat \<Rightarrow> nat \<Rightarrow> bool" where
  "has_shape g nlat nlon = (length g = nlat \<and> list_all (\<lambda>r. length r = nlon) g)"

section \<open>\<open>check_by_mask\<close>\<close>

text \<open>
  The land-sea mask, an \<open>xarray.DataArray\<close> with its two coordinates; \<open>lsm_values\<close> has
  one row for each latitude.
\<close>

record land_sea_mask =
  longitude :: "real list"
  latitude :: "real list"
  lsm_values :: grid

text \<open>\<open>np.meshgrid(x, y)\<close>: both results have one row for each \<open>y\<close>.\<close>

definition meshgrid :: "real list \<Rightarrow> real list \<Rightarrow> grid \<times> grid" where
  "meshgrid xs ys = (map (\<lambda>y. xs) ys, map (\<lambda>y. map (\<lambda>x. y) xs) ys)"

text \<open>
  \<open>inner_idx\<close> starts as the Python value \<open>True\<close> and becomes a boolean array with the
  first \<open>&=\<close>; the two are kept apart, as \<open>~\<close> and indexing treat them differently.
\<close>

datatype inner_index = PyTrue | BoolArray "bool list list"

text \<open>The truth value of \<open>getattr(trackrun.conf, name, None)\<close>.\<close>

definition truthy :: "real option \<Rightarrow> bool" where
  "truthy v = (case v of None \<Rightarrow> False | Some x \<Rightarrow> x \<noteq> 0)"

text \<open>\<open>inner_idx &= arr\<close>, elementwise; \<open>True & arr\<close> is \<open>arr\<close>.\<close>

definition and_assign :: "inner_index \<Rightarrow> bool list list \<Rightarrow> inner_index" where
  "and_assign idx arr =
     (case idx of
        PyTrue \<Rightarrow> BoolArray arr
      | BoolArray a \<Rightarrow> BoolArray (map2 (map2 (\<and>)) a arr))"

definition geq_grid :: "grid \<Rightarrow> real \<Rightarrow> bool list list" where
  "geq_grid g v = map (map (\<lambda>x. x \<ge> v)) g"

definition leq_grid :: "grid \<Rightarrow> real \<Rightarrow> bool list list" where
  "leq_grid g v = map (map (\<lambda>x. x \<le> v)) g"

text \<open>Lines 164 to 172: the four optional bounds, each applied when its value is truthy.\<close>

definition inner_region :: "run_conf \<Rightarrow> grid \<Rightarrow> grid \<Rightarrow> inner_index" where
  "inner_region c lon2d lat2d =
     (let idx0 = PyTrue;
          idx1 = (if truthy (lon1 c) then and_assign idx0 (geq_grid lon2d (the (lon1 c)))
                  else idx0);
          idx2 = (if truthy (lon2 c) then and_assign idx1 (leq_grid lon2d (the (lon2 c)))
                  else idx1);
          idx3 = (if truthy (lat1 c) then and_assign idx2 (geq_grid lat2d (the (lat1 c)))
                  else idx2);
          idx4 = (if truthy (lat2 c) then and_assign idx3 (leq_grid lat2d (the (lat2 c)))
                  else idx3)
      in idx4)"

definition zeros_like :: "grid \<Rightarrow> grid" where
  "zeros_like g = map (map (\<lambda>x. 0)) g"

text \<open>
  \<open>boundary_mask[~inner_idx] = 1.0\<close>. On a boolean array \<open>~\<close> negates each element and the
  assignment sets the cells where the negation holds. On the Python value \<open>True\<close>, which
  is the integer 1, \<open>~\<close> is the bitwise complement \<open>- 1 - 1 = - 2\<close>, and the assignment
  is to the row of index \<open>- 2\<close>, raising \<open>IndexError\<close> when there is no such row.
\<close>

definition py_invert :: "int \<Rightarrow> int" where
  "py_invert n = - n - 1"

definition assign_outside :: "grid \<Rightarrow> inner_index \<Rightarrow> error + grid" where
  "assign_outside boundary_mask idx =
     (case idx of
        PyTrue \<Rightarrow>
          (case norm_index (length boundary_mask) (py_invert 1) of
             Inl e \<Rightarrow> Inl e
           | Inr j \<Rightarrow> Inr (boundary_mask[j := map (\<lambda>x. 1) (boundary_mask ! j)]))
      | BoolArray a \<Rightarrow>
          Inr (map2 (map2 (\<lambda>v inner. if \<not> inner then 1 else v)) boundary_mask a))"

text \<open>
  Line 175: \<open>((boundary_mask == 1.0) | (l_mask >= lmask_thresh)) * 1.0\<close>, elementwise on
  two arrays of the same shape. The mask of the data model is aligned to its grid; for
  any other shape the model raises \<open>ValueError\<close>, as numpy does when the shapes cannot be
  broadcast.
\<close>

definition combine_mask :: "grid \<Rightarrow> grid \<Rightarrow> real \<Rightarrow> error + grid" where
  "combine_mask boundary_mask l_mask lmask_thresh =
     (if map length boundary_mask \<noteq> map length l_mask then Inl ValueError
      else Inr (map2 (map2 (\<lambda>b l. if b = 1 \<or> l \<ge> lmask_thresh then 1 else 0))
                  boundary_mask l_mask))"

text \<open>Lines 162 to 175: the mask that is stored on the \<open>TrackRun\<close>.\<close>

definition build_themask :: "run_conf \<Rightarrow> land_sea_mask \<Rightarrow> real \<Rightarrow> error + grid" where
  "build_themask c lsm lmask_thresh =
     (let (lon2d, lat2d) = meshgrid (longitude lsm) (latitude lsm);
          l_mask = lsm_values lsm;
          inner_idx = inner_region c lon2d lat2d;
          boundary_mask = zeros_like lon2d
      in case assign_outside boundary_mask inner_idx of
           Inl e \<Rightarrow> Inl e
         | Inr boundary_mask' \<Rightarrow> combine_mask boundary_mask' l_mask lmask_thresh)"

text \<open>
  \<open>octant.utils.mask_tracks\<close> is outside the module: an argument of the model, taking the
  mask, the two grids, the positions of the track and the radius in metres.
\<close>

type_synonym mask_tracks_fn = "grid \<Rightarrow> grid \<Rightarrow> grid \<Rightarrow> (real \<times> real) list \<Rightarrow> real \<Rightarrow> real"

definition lonlat_c :: "octant_track \<Rightarrow> (real \<times> real) list" where
  "lonlat_c ot = map (\<lambda>r. (lon r, lat r)) ot"

text \<open>
  \<open>check_by_mask\<close> returns the flag and the \<open>TrackRun\<close> with \<open>themask\<close> assigned. When
  the mask cannot be built the exception leaves the \<open>TrackRun\<close> as it was.
\<close>

definition check_by_mask ::
  "mask_tracks_fn \<Rightarrow> octant_track \<Rightarrow> trackrun \<Rightarrow> land_sea_mask \<Rightarrow> real \<Rightarrow> real \<Rightarrow> real
     \<Rightarrow> error + bool \<times> trackrun" where
  "check_by_mask mask_tracks ot trackrun lsm lmask_thresh rad mask_thresh =
     (case build_themask (conf trackrun) lsm lmask_thresh of
        Inl e \<Rightarrow> Inl e
      | Inr m \<Rightarrow>
          (let (lon2d, lat2d) = meshgrid (longitude lsm) (latitude lsm);
               trackrun' = trackrun\<lparr>themask := Some m\<rparr>;
               flag = (mask_tracks m lon2d lat2d (lonlat_c ot) (rad * 1000) < mask_thresh)
           in Inr (flag, trackrun')))"

text \<open>What a caller observes of a call: the flag and the mask left on the \<open>TrackRun\<close>.\<close>

definition flag_and_mask :: "error + bool \<times> trackrun \<Rightarrow> error + bool \<times> grid option" where
  "flag_and_mask r = map_sum id (\<lambda>(flag, t). (flag, themask t)) r"

text \<open>
  The mask as the specification words it: a cell is outside the inner region when one of
  the configured bounds fails for it (a bound that is absent, or whose value is falsy,
  constrains nothing), and the mask is 1 at a cell that is outside or whose land
  fraction is at least the threshold, 0 elsewhere.
\<close>

definition outside_region :: "run_conf \<Rightarrow> real \<Rightarrow> real \<Rightarrow> bool" where
  "outside_region c x y =
     ((truthy (lon1 c) \<and> x < the (lon1 c)) \<or> (truthy (lon2 c) \<and> the (lon2 c) < x) \<or>
      (truthy (lat1 c) \<and> y < the (lat1 c)) \<or> (truthy (lat2 c) \<and> the (lat2 c) < y))"

definition spec_mask :: "run_conf \<Rightarrow> land_sea_mask \<Rightarrow> real \<Rightarrow> grid" where
  "spec_mask c lsm lmask_thresh =
     map2 (\<lambda>y row. map2 (\<lambda>x l. if outside_region c x y \<or> l \<ge> lmask_thresh then 1 else 0)
                       (longitude lsm) row)
       (latitude lsm) (lsm_values lsm)"

definition wf_lsm :: "land_sea_mask \<Rightarrow> bool" where
  "wf_lsm lsm = has_shape (lsm_values lsm) (length (latitude lsm)) (length (longitude lsm))"

section \<open>\<open>check_far_from_boundaries\<close>\<close>

text \<open>
  Modelled from the spec: \<open>octant.utils.great_circle(lon1, lon2, lat1, lat2, r)\<close> is
  imported by the module and is not part of it. The specification calls it the
  great-circle distance, the shortest distance between two points on a sphere; this is
  its haversine form on degrees, with the radius of the sphere as first argument.
  \<open>check_far_from_boundaries\<close> takes the distance function as an argument, and the
  general statements hold for every such function.
\<close>

definition deg2rad :: "real \<Rightarrow> real" where
  "deg2rad x = x * pi / 180"

definition great_circle :: "real \<Rightarrow> real \<Rightarrow> real \<Rightarrow> real \<Rightarrow> real \<Rightarrow> real" where
  "great_circle r lon1' lon2' lat1' lat2' =
     (let dlon = deg2rad lon2' - deg2rad lon1';
          dlat = deg2rad lat2' - deg2rad lat1';
          a = (sin (dlat / 2))\<^sup>2 + cos (deg2rad lat1') * cos (deg2rad lat2') * (sin (dlon / 2))\<^sup>2
      in 2 * arcsin (sqrt a) * r)"

text \<open>Modelled from the spec: the default radius, the mean radius of the Earth in metres.\<close>

definition EARTH_RADIUS :: real where
  "EARTH_RADIUS = 6371009"

text \<open>
  The closure \<open>_func(row)\<close> of the loop body, for the edge of index \<open>i\<close> and value \<open>ll\<close>:
  \<open>args[2 * (i // 2)] = ll\<close> on a list of four entries.
\<close>

definition edge_func ::
  "(real \<Rightarrow> real \<Rightarrow> real \<Rightarrow> real \<Rightarrow> real) \<Rightarrow> nat \<Rightarrow> real \<Rightarrow> row \<Rightarrow> error + real" where
  "edge_func gc i ll r =
     (let args = [lon r, lon r, lat r, lat r];
          k = 2 * (i div 2)
      in if k < length args then
           (let args' = args[k := ll] in Inr (gc (args' ! 0) (args' ! 1) (args' ! 2) (args' ! 3)))
         else Inl IndexError)"

text \<open>
  \<open>ot.apply(_func, axis=1)\<close>: the function on every row, in order. A track of a
  \<open>TrackRun\<close> has at least one row; on a frame without rows pandas does not call the
  function and the comparison that follows gives no boolean, which the model reports as
  \<open>EmptyFrame\<close>.
\<close>

fun map_rows :: "(row \<Rightarrow> error + real) \<Rightarrow> row list \<Rightarrow> error + real list" where
  "map_rows f [] = Inr []"
| "map_rows f (r # rs) =
     (case f r of
        Inl e \<Rightarrow> Inl e
      | Inr d \<Rightarrow> (case map_rows f rs of Inl e \<Rightarrow> Inl e | Inr ds \<Rightarrow> Inr (d # ds)))"

definition apply_axis1 :: "(row \<Rightarrow> error + real) \<Rightarrow> octant_track \<Rightarrow> error + real list" where
  "apply_axis1 f ot = (case ot of [] \<Rightarrow> Inl EmptyFrame | r # rs \<Rightarrow> map_rows f ot)"

text \<open>The loop \<open>for i, ll in enumerate(lonlat_box)\<close>; it has no early exit.\<close>

fun edge_loop ::
  "(real \<Rightarrow> real \<Rightarrow> real \<Rightarrow> real \<Rightarrow> real) \<Rightarrow> octant_track \<Rightarrow> real \<Rightarrow> bool \<Rightarrow> (nat \<times> real) list
     \<Rightarrow> error + bool" where
  "edge_loop gc ot dist' result [] = Inr result"
| "edge_loop gc ot dist' result ((i, ll) # rest) =
     (case apply_axis1 (edge_func gc i ll) ot of
        Inl e \<Rightarrow> Inl e
      | Inr ds \<Rightarrow> edge_loop gc ot dist' (result \<and> list_all (\<lambda>d. d > dist') ds) rest)"

definition check_far_from_boundaries ::
  "(real \<Rightarrow> real \<Rightarrow> real \<Rightarrow> real \<Rightarrow> real) \<Rightarrow> octant_track \<Rightarrow> real list \<Rightarrow> real \<Rightarrow> error + bool" where
  "check_far_from_boundaries gc ot lonlat_box dist' =
     (case (py_index lonlat_box 0, py_index lonlat_box 1, py_index lonlat_box 2,
            py_index lonlat_box 3) of
        (Inr b0, Inr b1, Inr b2, Inr b3) \<Rightarrow>
          (let result = list_all (\<lambda>r. lon r \<ge> b0 \<and> lon r \<le> b1 \<and> lat r \<ge> b2 \<and> lat r \<le> b3) ot
           in if \<not> result then Inr False
              else edge_loop gc ot dist' result (enumerate 0 lonlat_box))
      | other \<Rightarrow> Inl IndexError)"

text \<open>The two conditions of the contract, for a box of four entries.\<close>

definition inside_box :: "real list \<Rightarrow> row \<Rightarrow> bool" where
  "inside_box box r =
     (box ! 0 \<le> lon r \<and> lon r \<le> box ! 1 \<and> box ! 2 \<le> lat r \<and> lat r \<le> box ! 3)"

definition farther_than ::
  "(real \<Rightarrow> real \<Rightarrow> real \<Rightarrow> real \<Rightarrow> real) \<Rightarrow> real list \<Rightarrow> real \<Rightarrow> row \<Rightarrow> bool" where
  "farther_than gc box dist' r =
     (dist' < gc (box ! 0) (lon r) (lat r) (lat r) \<and> dist' < gc (box ! 1) (lon r) (lat r) (lat r) \<and>
      dist' < gc (lon r) (lon r) (box ! 2) (lat r) \<and> dist' < gc (lon r) (lon r) (box ! 3) (lat r))"


section \<open>Readings of the claims on \<open>bin_count_tracks\<close>\<close>

text \<open>
  The two readings the statements below use. A track touches month \<open>m\<close> when one of its
  rows has that month. In the winter branch a track is matched against winter \<open>i\<close> by the
  last entry of its deduplicated months and the first or last entry of its deduplicated
  years, the three values the loop body reads.
\<close>

definition touches :: "int \<Rightarrow> nat \<times> octant_track \<Rightarrow> bool" where
  "touches m t = (m \<in> month ` set (snd t))"


section \<open>Example data\<close>

text \<open>
  Two tracks: one active in March and April 2001, one in December 2002.
\<close>

definition example_tracks :: "(nat \<times> octant_track) list" where
  "example_tracks =
     [(0, [\<lparr>lon = 0, lat = 70, year = 2001, month = 3\<rparr>,
           \<lparr>lon = 1, lat = 71, year = 2001, month = 3\<rparr>,
           \<lparr>lon = 2, lat = 72, year = 2001, month = 4\<rparr>]),
      (1, [\<lparr>lon = 5, lat = 65, year = 2002, month = 12\<rparr>])]"

definition example_run :: trackrun where
  "example_run =
     \<lparr>is_categorised = False, cat_labels = [], gb = example_tracks,
      conf = \<lparr>lon1 = None, lon2 = None, lat1 = None, lat2 = None\<rparr>, themask = None\<rparr>"

text \<open>
  A grid of two latitudes and two longitudes, and a density method whose result depends
  on both of its labels, so that the order of the slices can be read off a result.
\<close>

definition example_lon2d :: grid where
  "example_lon2d = [[0, 10], [0, 10]]"

definition example_lat2d :: grid where
  "example_lat2d = [[60, 60], [70, 70]]"

definition example_density :: density_fn where
  "example_density lon2d lat2d by_arg subset_arg =
     Inr (map (map (\<lambda>x. real (length by_arg) + 10 * real (length subset_arg))) lon2d)"

text \<open>
  A land-sea mask on two longitudes and two latitudes, a configuration with two of the
  four bounds, and a stand-in for \<open>mask_tracks\<close> whose value depends on the mask
  it is given.
\<close>

definition example_lsm :: land_sea_mask where
  "example_lsm = \<lparr>longitude = [- 10, 10], latitude = [60, 70], lsm_values = [[0, 0], [0, 1 / 2]]\<rparr>"

definition example_conf :: run_conf where
  "example_conf = \<lparr>lon1 = Some 5, lon2 = None, lat1 = None, lat2 = Some 65\<rparr>"

definition example_bounded_run :: trackrun where
  "example_bounded_run = example_run\<lparr>conf := example_conf\<rparr>"

definition example_mask_tracks :: mask_tracks_fn where
  "example_mask_tracks m lon2d lat2d positions rad = sum_list (concat m) / 10"

text \<open>
  The weaker reading, a distance of at least \<open>dist\<close> from every edge.
\<close>

definition at_least_dist ::
  "(real \<Rightarrow> real \<Rightarrow> real \<Rightarrow> real \<Rightarrow> real) \<Rightarrow> real list \<Rightarrow> real \<Rightarrow> row \<Rightarrow> bool" where
  "at_least_dist gc box dist' r =
     (dist' \<le> gc (box ! 0) (lon r) (lat r) (lat r) \<and> dist' \<le> gc (box ! 1) (lon r) (lat r) (lat r) \<and>
      dist' \<le> gc (lon r) (lon r) (box ! 2) (lat r) \<and> dist' \<le> gc (lon r) (lon r) (box ! 3) (lat r))"

text \<open>
  Boxes and one-row tracks: a point on the western edge of a box, a point inside it, and
  the centre of a box that is symmetric about the equator and the zero meridian, with its
  distance to the southern edge.
\<close>

definition example_box :: "real list" where
  "example_box = [- 10, 20, 60, 80]"

definition example_edge_track :: octant_track where
  "example_edge_track = [\<lparr>lon = - 10, lat = 70, year = 2001, month = 3\<rparr>]"





section \<open>Properties of the primitives\<close>

lemma set_unique_from: "set (unique_from seen xs) = set xs - set seen"
  by (induction xs arbitrary: seen) auto

lemma distinct_unique_from: "distinct (unique_from seen xs)"
  by (induction xs arbitrary: seen) (auto simp: set_unique_from)

lemma set_unique: "set (unique xs) = set xs"
  by (simp add: unique_def set_unique_from)

lemma distinct_unique: "distinct (unique xs)"
  by (simp add: unique_def distinct_unique_from)


lemma hd_unique: "xs \<noteq> [] \<Longrightarrow> hd (unique xs) = hd xs"
  by (cases xs) (simp_all add: unique_def)

lemma month_loop_spec:
  "distinct ms \<Longrightarrow> \<forall>m\<in>set ms. 1 \<le> m \<and> m \<le> int (length counter) \<Longrightarrow>
   \<exists>c. month_loop counter ms = Inr c \<and> length c = length counter \<and>
     (\<forall>k<length counter. c ! k = counter ! k + (if int k + 1 \<in> set ms then 1 else 0))"
proof (induction ms arbitrary: counter)
  case Nil
  then show ?case by simp
next
  case (Cons m ms)
  let ?c1 = "counter[nat (m - 1) := counter ! nat (m - 1) + 1]"
  from Cons.prems have m: "1 \<le> m" "m \<le> int (length counter)" by auto
  then have step: "np_incr counter (m - 1) = Inr ?c1"
    by (simp add: np_incr_def norm_index_def)
  from Cons.prems have "distinct ms" "\<forall>m\<in>set ms. 1 \<le> m \<and> m \<le> int (length ?c1)" by auto
  from Cons.IH[OF this] obtain c where c: "month_loop ?c1 ms = Inr c" "length c = length ?c1"
    "\<forall>k<length ?c1. c ! k = ?c1 ! k + (if int k + 1 \<in> set ms then 1 else 0)" by blast
  have "\<forall>k<length counter. c ! k = counter ! k + (if int k + 1 \<in> set (m # ms) then 1 else 0)"
  proof (intro allI impI)
    fix k assume k: "k < length counter"
    from Cons.prems have "m \<notin> set ms" by simp
    show "c ! k = counter ! k + (if int k + 1 \<in> set (m # ms) then 1 else 0)"
    proof (cases "k = nat (m - 1)")
      case True
      with m have "int k + 1 = m" by simp
      with \<open>m \<notin> set ms\<close> c(3) k True show ?thesis by simp
    next
      case False
      with m have "int k + 1 \<noteq> m" by auto
      with c(3) k False show ?thesis by simp
    qed
  qed
  with c step show ?case by simp
qed

lemma month_tracks_spec:
  "\<forall>t\<in>set tracks. \<forall>r\<in>set (snd t). 1 \<le> month r \<and> month r \<le> int (length counter) \<Longrightarrow>
   \<exists>c. month_tracks counter tracks = Inr c \<and> length c = length counter \<and>
     (\<forall>k<length counter. c ! k = counter ! k + int (length (filter (touches (int k + 1)) tracks)))"
proof (induction tracks arbitrary: counter)
  case Nil
  then show ?case by simp
next
  case (Cons t tracks)
  obtain k df where t: "t = (k, df)" by (cases t)
  have d: "distinct (track_months df)" by (simp add: track_months_def distinct_unique)
  have s: "set (track_months df) = month ` set df" by (simp add: track_months_def set_unique)
  from Cons.prems t have "\<forall>m\<in>set (track_months df). 1 \<le> m \<and> m \<le> int (length counter)"
    by (auto simp: s)
  from month_loop_spec[OF d this] obtain c1 where c1:
    "month_loop counter (track_months df) = Inr c1" "length c1 = length counter"
    "\<forall>k<length counter. c1 ! k = counter ! k + (if int k + 1 \<in> set (track_months df) then 1 else 0)"
    by blast
  from Cons.prems c1(2)
  have "\<forall>t\<in>set tracks. \<forall>r\<in>set (snd t). 1 \<le> month r \<and> month r \<le> int (length c1)" by simp
  from Cons.IH[OF this] obtain c where c:
    "month_tracks c1 tracks = Inr c" "length c = length c1"
    "\<forall>k<length c1. c ! k = c1 ! k + int (length (filter (touches (int k + 1)) tracks))"
    by blast
  have "\<forall>k<length counter. c ! k = counter ! k + int (length (filter (touches (int k + 1)) (t # tracks)))"
    using c(3) c1(2,3) by (simp add: t touches_def s)
  with c(1,2) c1(1,2) show ?case by (simp add: t)
qed






text \<open>
  On a list whose equal values are adjacent, \<open>unique\<close> only drops the repetitions.
\<close>

lemma remdups_adj_Cons_tl: "remdups_adj (x # xs) = x # tl (remdups_adj (x # xs))"
  by (cases xs) (simp_all add: remdups_adj_Cons split: list.splits)

lemma unique_from_runs:
  "distinct (remdups_adj (s # xs)) \<Longrightarrow> set seen \<inter> set xs \<subseteq> {s} \<Longrightarrow> s \<in> set seen \<Longrightarrow>
   unique_from seen xs = tl (remdups_adj (s # xs))"
proof (induction xs arbitrary: s seen)
  case Nil
  then show ?case by simp
next
  case (Cons x xs)
  show ?case
  proof (cases "x = s")
    case True
    with Cons.prems have "unique_from seen xs = tl (remdups_adj (s # xs))"
      by (intro Cons.IH) auto
    with True Cons.prems(3) show ?thesis by simp
  next
    case False
    with Cons.prems(2) have notin: "x \<notin> set seen" by auto
    from False Cons.prems(1) have d: "distinct (remdups_adj (x # xs))"
      and s: "s \<notin> set (x # xs)" by auto
    from Cons.prems(2) s have "set (x # seen) \<inter> set xs \<subseteq> {x}" by auto
    with d have "unique_from (x # seen) xs = tl (remdups_adj (x # xs))"
      by (intro Cons.IH) auto
    with False notin remdups_adj_Cons_tl[of x xs] show ?thesis by simp
  qed
qed

lemma unique_runs: "distinct (remdups_adj xs) \<Longrightarrow> unique xs = remdups_adj xs"
proof (cases xs)
  case Nil
  then show ?thesis by (simp add: unique_def)
next
  case (Cons x xs')
  assume "distinct (remdups_adj xs)"
  with Cons have "unique_from [x] xs' = tl (remdups_adj (x # xs'))"
    by (intro unique_from_runs) auto
  with Cons remdups_adj_Cons_tl[of x xs'] show ?thesis by (simp add: unique_def)
qed

lemma last_unique_runs:
  "distinct (remdups_adj xs) \<Longrightarrow> last (unique xs) = last xs"
  by (simp add: unique_runs)

text \<open>
  The first entry of the deduplicated years is the year of the first row. When the
  months (years) of a track come in runs, none returning after another has appeared, as
  they do along a track in time order that is shorter than a year, the last entry of the
  deduplicated months (years) is the month (year) of the last row.
\<close>

lemma track_first_year: "df \<noteq> [] \<Longrightarrow> hd (track_years df) = year (hd df)"
  by (simp add: track_years_def hd_unique hd_map)

lemma track_last_year:
  "df \<noteq> [] \<Longrightarrow> distinct (remdups_adj (map year df)) \<Longrightarrow> last (track_years df) = year (last df)"
  by (simp add: track_years_def last_unique_runs last_map)

lemma track_last_month:
  "df \<noteq> [] \<Longrightarrow> distinct (remdups_adj (map month df)) \<Longrightarrow>
   last (track_months df) = month (last df)"
  by (simp add: track_months_def last_unique_runs last_map)

section \<open>Facts about the example data\<close>


lemma example_months:
  "\<forall>t\<in>set (gb example_run). \<forall>r\<in>set (snd t). 1 \<le> month r \<and> month r \<le> 12"
  by (simp add: example_run_def example_tracks_def)

lemma upper_m: "upper ''m'' = ''M''" by code_simp


lemma nth_list12:
  "length c = 12 \<Longrightarrow>
   c = [c ! 0, c ! 1, c ! 2, c ! 3, c ! 4, c ! 5, c ! 6, c ! 7, c ! 8, c ! 9, c ! 10, c ! 11]"
  by (rule nth_equalityI) (auto simp: nth_Cons' less_Suc_eq numeral_eq_Suc)

section \<open>The claims on \<open>bin_count_tracks\<close>\<close>



text \<open>
  C5. With \<open>by="M"\<close> (in either case) the result is an array of 12 integers, and the
  bucket \<open>m - 1\<close> of month \<open>m\<close> holds the number of tracks that touch month \<open>m\<close>: a track
  adds exactly one to the bucket of every month it touches, however many of its rows fall
  in that month. The months of a time stamp are \<open>1..12\<close>.
\<close>

theorem bin_count_tracks_month:
  assumes "upper by_arg = ''M''"
    and "\<forall>t\<in>set (gb tr_obj). \<forall>r\<in>set (snd t). 1 \<le> month r \<and> month r \<le> 12"
  shows "\<exists>c. bin_count_tracks tr_obj start_year n_winters by_arg = Inr c \<and> length c = 12 \<and>
           (\<forall>m. 1 \<le> m \<and> m \<le> 12 \<longrightarrow>
              c ! nat (m - 1) = int (length (filter (touches m) (gb tr_obj))))"
proof -
  let ?z = "replicate 12 (0::int)"
  from assms(2) have "\<forall>t\<in>set (gb tr_obj). \<forall>r\<in>set (snd t). 1 \<le> month r \<and> month r \<le> int (length ?z)"
    by simp
  from month_tracks_spec[OF this] obtain c where c:
    "month_tracks ?z (gb tr_obj) = Inr c" "length c = 12"
    "\<forall>k<12. c ! k = int (length (filter (touches (int k + 1)) (gb tr_obj)))"
    by auto
  have "\<forall>m. 1 \<le> m \<and> m \<le> 12 \<longrightarrow>
          c ! nat (m - 1) = int (length (filter (touches m) (gb tr_obj)))"
  proof (intro allI impI)
    fix m :: int assume m: "1 \<le> m \<and> m \<le> 12"
    then have "nat (m - 1) < 12" "int (nat (m - 1)) + 1 = m" by auto
    with c(3) show "c ! nat (m - 1) = int (length (filter (touches m) (gb tr_obj)))"
      by metis
  qed
  moreover have "upper by_arg \<noteq> ''W''" using assms(1) by simp
  ultimately show ?thesis using c(1,2) assms(1)
    by (simp add: bin_count_tracks_def np_zeros_def)
qed

theorem bin_count_tracks_month_witness:
  "upper ''m'' = ''M'' \<and>
   bin_count_tracks example_run 2000 3 ''m'' = Inr [0, 0, 1, 1, 0, 0, 0, 0, 0, 0, 0, 1]"
proof -
  from bin_count_tracks_month[OF upper_m example_months, of 2000 3]
  obtain c where c: "bin_count_tracks example_run 2000 3 ''m'' = Inr c" "length c = 12"
    "\<forall>m. 1 \<le> m \<and> m \<le> 12 \<longrightarrow>
       c ! nat (m - 1) = int (length (filter (touches m) (gb example_run)))"
    by auto
  from c(3)[rule_format, of 1] c(3)[rule_format, of 2] c(3)[rule_format, of 3]
    c(3)[rule_format, of 4] c(3)[rule_format, of 5] c(3)[rule_format, of 6]
    c(3)[rule_format, of 7] c(3)[rule_format, of 8] c(3)[rule_format, of 9]
    c(3)[rule_format, of 10] c(3)[rule_format, of 11] c(3)[rule_format, of 12]
  have "c ! 0 = 0" "c ! 1 = 0" "c ! 2 = 1" "c ! 3 = 1" "c ! 4 = 0" "c ! 5 = 0"
    "c ! 6 = 0" "c ! 7 = 0" "c ! 8 = 0" "c ! 9 = 0" "c ! 10 = 0" "c ! 11 = 1"
    by (simp_all add: example_run_def example_tracks_def touches_def)
  with nth_list12[OF c(2)] have "c = [0, 0, 1, 1, 0, 0, 0, 0, 0, 0, 0, 1]" by simp
  with c(1) upper_m show ?thesis by simp
qed

text \<open>
  C7. A flag whose upper-case form is neither \<open>M\<close> nor \<open>W\<close> runs neither branch: the
  local \<open>counter\<close> is never assigned, and \<open>return counter\<close> fails on the unassigned
  local. No count array is returned, and the failure is not an argument error.
\<close>

theorem bin_count_tracks_unknown_flag:
  "upper by_arg \<noteq> ''M'' \<Longrightarrow> upper by_arg \<noteq> ''W'' \<Longrightarrow>
   bin_count_tracks tr_obj start_year n_winters by_arg = Inl UnboundLocalError"
  by (simp add: bin_count_tracks_def)

theorem bin_count_tracks_unknown_flag_witness:
  "upper ''year'' \<noteq> ''M'' \<and> upper ''year'' \<noteq> ''W'' \<and>
   bin_count_tracks example_run 2000 3 ''year'' = Inl UnboundLocalError"
proof -
  have h: "upper ''year'' \<noteq> ''M''" "upper ''year'' \<noteq> ''W''" by code_simp+
  from bin_count_tracks_unknown_flag[OF h] h show ?thesis by simp
qed

section \<open>The claims on \<open>calc_all_dens\<close>\<close>




lemma calc_all_dens_no_subsets:
  "calc_all_dens density tr_obj lon2d lat2d (PyList []) density_types = (Inl ValueError, [])"
  by (simp add: calc_all_dens_def xr_concat_def)

lemma calc_all_dens_no_density_types:
  "subsets \<noteq> [] \<Longrightarrow>
   calc_all_dens density tr_obj lon2d lat2d (PyList subsets) [] = (Inl ValueError, [])"
  by (cases subsets) (simp_all add: calc_all_dens_def xr_concat_def)

lemma calc_all_dens_categorised:
  "is_categorised tr_obj \<Longrightarrow>
   calc_all_dens density tr_obj lon2d lat2d PyNone density_types =
   calc_all_dens density tr_obj lon2d lat2d (PyList (cat_labels tr_obj)) density_types"
  by (simp add: calc_all_dens_def)


lemma list2: "length c = 2 \<Longrightarrow> c = [c ! 0, c ! 1]"
  by (cases c; cases "tl c"; cases "tl (tl c)") auto


text \<open>
  C8. When \<open>subsets\<close> is given and is not iterable, or is a bare string, the call fails
  with \<open>ArgumentError\<close>, and the log of density calls is empty: the failure comes before
  any density computation, and nothing else is returned.
\<close>

theorem calc_all_dens_invalid_subsets:
  "subsets \<noteq> PyNone \<Longrightarrow> \<not> is_iterable subsets \<or> is_str subsets \<Longrightarrow>
   calc_all_dens density tr_obj lon2d lat2d subsets density_types = (Inl ArgumentError, [])"
  by (auto simp: calc_all_dens_def)

theorem calc_all_dens_invalid_subsets_witness:
  "PyStr ''bound'' \<noteq> PyNone \<and> is_str (PyStr ''bound'') \<and>
   calc_all_dens example_density example_run example_lon2d example_lat2d (PyStr ''bound'')
     DENSITY_TYPES = (Inl ArgumentError, []) \<and>
   PyInt 3 \<noteq> PyNone \<and> is_iterable (PyInt 3) = False \<and>
   calc_all_dens example_density example_run example_lon2d example_lat2d (PyInt 3)
     DENSITY_TYPES = (Inl ArgumentError, [])"
  using calc_all_dens_invalid_subsets[of "PyStr ''bound''" example_density example_run
      example_lon2d example_lat2d DENSITY_TYPES]
    calc_all_dens_invalid_subsets[of "PyInt 3" example_density example_run
      example_lon2d example_lat2d DENSITY_TYPES]
  by simp

text \<open>
  C3. On a \<open>TrackRun\<close> that is not categorised, \<open>subsets=None\<close> is left as \<open>None\<close> and
  the call raises instead of returning an array with one unnamed subset; no density is
  computed.
\<close>

theorem calc_all_dens_uncategorised_fails:
  "\<not> is_categorised tr_obj \<Longrightarrow>
   calc_all_dens density tr_obj lon2d lat2d PyNone density_types = (Inl ValueError, [])"
  by (simp add: calc_all_dens_def)

theorem calc_all_dens_uncategorised_fails_witness:
  "is_categorised example_run = False \<and>
   calc_all_dens example_density example_run example_lon2d example_lat2d PyNone DENSITY_TYPES =
     (Inl ValueError, [])"
proof -
  have h: "\<not> is_categorised example_run" by (simp add: example_run_def)
  from calc_all_dens_uncategorised_fails[OF h] h show ?thesis by simp
qed

section \<open>The claims on \<open>check_by_mask\<close>\<close>

lemma map2_map_same: "map2 f (map g xs) (map h xs) = map (\<lambda>x. f (g x) (h x)) xs"
  by (induction xs) simp_all

lemma map2_map_left: "map2 f (map g xs) ys = map2 (\<lambda>x y. f (g x) y) xs ys"
  by (induction xs arbitrary: ys) (simp, case_tac ys, simp_all)

lemma if_one_iff: "((if P then 1 else 0) = (1::real)) = P"
  by simp

lemma inner_region_bounded:
  assumes "truthy (lon1 c) \<or> truthy (lon2 c) \<or> truthy (lat1 c) \<or> truthy (lat2 c)"
  shows "inner_region c (fst (meshgrid xs ys)) (snd (meshgrid xs ys)) =
         BoolArray (map (\<lambda>y. map (\<lambda>x. \<not> outside_region c x y) xs) ys)"
  using assms
  by (cases "truthy (lon1 c)"; cases "truthy (lon2 c)"; cases "truthy (lat1 c)";
      cases "truthy (lat2 c)")
    (simp_all add: inner_region_def meshgrid_def and_assign_def geq_grid_def leq_grid_def
      outside_region_def map2_map_same not_less)

lemma inner_region_unbounded:
  assumes "\<not> truthy (lon1 c)" "\<not> truthy (lon2 c)" "\<not> truthy (lat1 c)" "\<not> truthy (lat2 c)"
  shows "inner_region c lon2d lat2d = PyTrue"
  using assms by (simp add: inner_region_def)

lemma wf_lsm_lengths:
  "wf_lsm lsm \<Longrightarrow> map length (lsm_values lsm) = map (\<lambda>y. length (longitude lsm)) (latitude lsm)"
  by (auto simp: wf_lsm_def has_shape_def list_all_iff intro!: nth_equalityI)

text \<open>
  With at least one bound applied the stored mask is the mask of the specification.
\<close>

lemma build_themask_bounded:
  assumes "wf_lsm lsm"
    and "truthy (lon1 c) \<or> truthy (lon2 c) \<or> truthy (lat1 c) \<or> truthy (lat2 c)"
  shows "build_themask c lsm lmask_thresh = Inr (spec_mask c lsm lmask_thresh)"
proof -
  let ?xs = "longitude lsm" and ?ys = "latitude lsm"
  have idx: "inner_region c (fst (meshgrid ?xs ?ys)) (snd (meshgrid ?xs ?ys)) =
         BoolArray (map (\<lambda>y. map (\<lambda>x. \<not> outside_region c x y) ?xs) ?ys)"
    using assms(2) by (rule inner_region_bounded)
  have bm: "assign_outside (zeros_like (fst (meshgrid ?xs ?ys)))
      (BoolArray (map (\<lambda>y. map (\<lambda>x. \<not> outside_region c x y) ?xs) ?ys)) =
      Inr (map (\<lambda>y. map (\<lambda>x. if outside_region c x y then 1 else 0) ?xs) ?ys)"
    by (simp add: assign_outside_def zeros_like_def meshgrid_def map2_map_same)
  have cm: "combine_mask (map (\<lambda>y. map (\<lambda>x. if outside_region c x y then 1 else 0) ?xs) ?ys)
      (lsm_values lsm) lmask_thresh = Inr (spec_mask c lsm lmask_thresh)"
    using wf_lsm_lengths[OF assms(1)]
    by (simp add: combine_mask_def spec_mask_def map2_map_left comp_def if_one_iff
        cong: if_cong)
  show ?thesis
    unfolding build_themask_def
    by (simp add: case_prod_unfold idx bm cm)
qed


lemma norm_index_minus2: "2 \<le> n \<Longrightarrow> norm_index n (py_invert 1) = Inr (n - 2)"
  by (auto simp: norm_index_def py_invert_def)

lemma norm_index_minus2_short: "n < 2 \<Longrightarrow> norm_index n (py_invert 1) = Inl IndexError"
  by (auto simp: norm_index_def py_invert_def)

text \<open>
  With no bound applied \<open>inner_idx\<close> is still the Python value \<open>True\<close>: the assignment
  through \<open>~inner_idx\<close> fails on a grid of fewer than two latitudes, and on any other
  grid sets the whole row of index \<open>- 2\<close>.
\<close>

lemma build_themask_unbounded_short:
  assumes "\<not> truthy (lon1 c)" "\<not> truthy (lon2 c)" "\<not> truthy (lat1 c)" "\<not> truthy (lat2 c)"
    and "length (latitude lsm) < 2"
  shows "build_themask c lsm lmask_thresh = Inl IndexError"
  using assms(5)
  by (simp add: build_themask_def case_prod_unfold inner_region_unbounded[OF assms(1-4)]
      assign_outside_def zeros_like_def meshgrid_def norm_index_minus2_short)

lemma build_themask_unbounded:
  assumes "\<not> truthy (lon1 c)" "\<not> truthy (lon2 c)" "\<not> truthy (lat1 c)" "\<not> truthy (lat2 c)"
    and "wf_lsm lsm" and "2 \<le> length (latitude lsm)"
  shows "build_themask c lsm lmask_thresh =
         Inr ((spec_mask c lsm lmask_thresh)
                [length (latitude lsm) - 2 := map (\<lambda>x. 1) (longitude lsm)])"
proof -
  let ?xs = "longitude lsm" and ?ys = "latitude lsm" and ?L = "lsm_values lsm"
  let ?j = "length ?ys - 2"
  let ?zeros = "map (\<lambda>y. map (\<lambda>x. 0::real) ?xs) ?ys"
  let ?bm = "?zeros[?j := map (\<lambda>x. 1) ?xs]"
  from assms(5) have len: "length ?L = length ?ys" and rows: "\<forall>r\<in>set ?L. length r = length ?xs"
    by (simp_all add: wf_lsm_def has_shape_def list_all_iff)
  from assms(6) have j: "?j < length ?ys" by simp
  have ao: "assign_outside (zeros_like (fst (meshgrid ?xs ?ys))) PyTrue = Inr ?bm"
    using assms(6) j
    by (simp add: assign_outside_def zeros_like_def meshgrid_def norm_index_minus2 comp_def)
  have shape: "map length ?bm = map length ?L"
    using wf_lsm_lengths[OF assms(5)] j
    by (intro nth_equalityI) (simp_all add: nth_list_update)
  have "map2 (map2 (\<lambda>b l. if b = 1 \<or> l \<ge> lmask_thresh then 1 else 0)) ?bm ?L =
        (spec_mask c lsm lmask_thresh)[?j := map (\<lambda>x. 1) ?xs]"
  proof (rule nth_equalityI)
    show "length (map2 (map2 (\<lambda>b l. if b = 1 \<or> l \<ge> lmask_thresh then 1 else 0)) ?bm ?L) =
          length ((spec_mask c lsm lmask_thresh)[?j := map (\<lambda>x. 1) ?xs])"
      by (simp add: spec_mask_def len)
  next
    fix i assume "i < length (map2 (map2 (\<lambda>b l. if b = 1 \<or> l \<ge> lmask_thresh then 1 else 0)) ?bm ?L)"
    then have i: "i < length ?ys" by (simp add: len)
    with len rows have li: "length (?L ! i) = length ?xs" by simp
    have out: "\<not> outside_region c x y" for x y
      using assms(1-4) by (simp add: outside_region_def)
    show "map2 (map2 (\<lambda>b l. if b = 1 \<or> l \<ge> lmask_thresh then 1 else 0)) ?bm ?L ! i =
          (spec_mask c lsm lmask_thresh)[?j := map (\<lambda>x. 1) ?xs] ! i"
    proof (cases "i = ?j")
      case True
      have "map2 (\<lambda>b l. if b = 1 \<or> l \<ge> lmask_thresh then 1 else 0) (map (\<lambda>x. 1::real) ?xs) (?L ! i) =
            map (\<lambda>x. 1::real) ?xs"
        using li by (intro nth_equalityI) simp_all
      with True i len show ?thesis by (simp add: spec_mask_def)
    next
      case False
      have "map2 (\<lambda>b l. if b = 1 \<or> l \<ge> lmask_thresh then 1 else 0) (map (\<lambda>x. 0::real) ?xs) (?L ! i) =
            map2 (\<lambda>x l. if outside_region c x (?ys ! i) \<or> l \<ge> lmask_thresh then 1 else 0) ?xs (?L ! i)"
        using li by (intro nth_equalityI) (simp_all add: out)
      with False i len show ?thesis by (simp add: spec_mask_def)
    qed
  qed
  with shape have "combine_mask ?bm ?L lmask_thresh =
      Inr ((spec_mask c lsm lmask_thresh)[?j := map (\<lambda>x. 1) ?xs])"
    by (simp add: combine_mask_def)
  with ao show ?thesis
    by (simp add: build_themask_def case_prod_unfold inner_region_unbounded[OF assms(1-4)])
qed

lemma check_by_mask_same_mask:
  "build_themask (conf tr1) lsm lmask_thresh = build_themask (conf tr2) lsm lmask_thresh \<Longrightarrow>
   flag_and_mask (check_by_mask mask_tracks ot tr1 lsm lmask_thresh rad mask_thresh) =
   flag_and_mask (check_by_mask mask_tracks ot tr2 lsm lmask_thresh rad mask_thresh)"
  by (simp add: check_by_mask_def flag_and_mask_def case_prod_unfold Let_def split: sum.splits)

lemma check_by_mask_conf_only:
  "conf tr1 = conf tr2 \<Longrightarrow>
   flag_and_mask (check_by_mask mask_tracks ot tr1 lsm lmask_thresh rad mask_thresh) =
   flag_and_mask (check_by_mask mask_tracks ot tr2 lsm lmask_thresh rad mask_thresh)"
  by (rule check_by_mask_same_mask) simp

lemma inner_region_falsy:
  "inner_region (c\<lparr>lon1 := Some 0\<rparr>) lon2d lat2d = inner_region (c\<lparr>lon1 := None\<rparr>) lon2d lat2d"
  "inner_region (c\<lparr>lon2 := Some 0\<rparr>) lon2d lat2d = inner_region (c\<lparr>lon2 := None\<rparr>) lon2d lat2d"
  "inner_region (c\<lparr>lat1 := Some 0\<rparr>) lon2d lat2d = inner_region (c\<lparr>lat1 := None\<rparr>) lon2d lat2d"
  "inner_region (c\<lparr>lat2 := Some 0\<rparr>) lon2d lat2d = inner_region (c\<lparr>lat2 := None\<rparr>) lon2d lat2d"
  by (simp_all add: inner_region_def truthy_def)

lemma build_themask_falsy:
  "build_themask (c\<lparr>lon1 := Some 0\<rparr>) lsm t = build_themask (c\<lparr>lon1 := None\<rparr>) lsm t"
  "build_themask (c\<lparr>lon2 := Some 0\<rparr>) lsm t = build_themask (c\<lparr>lon2 := None\<rparr>) lsm t"
  "build_themask (c\<lparr>lat1 := Some 0\<rparr>) lsm t = build_themask (c\<lparr>lat1 := None\<rparr>) lsm t"
  "build_themask (c\<lparr>lat2 := Some 0\<rparr>) lsm t = build_themask (c\<lparr>lat2 := None\<rparr>) lsm t"
  by (simp_all only: build_themask_def inner_region_falsy)

text \<open>
  C4. The stored mask should be 1 exactly at the cells outside the configured region or
  with a land fraction of at least \<open>lmask_thresh\<close>. The example \<open>TrackRun\<close> configures no
  bound and the example mask has no land at threshold 1: the mask of the specification
  is 0 everywhere, and the mask the code builds and stores has the row of index \<open>- 2\<close>
  set to 1. The flag is the comparison of \<open>mask_tracks\<close> on that mask, at \<open>rad\<close>
  kilometres in metres, with \<open>mask_thresh\<close>.
\<close>

theorem check_by_mask_unbounded_mask:
  "build_themask (conf example_run) example_lsm 1 = Inr [[1, 1], [0, 0]] \<and>
   spec_mask (conf example_run) example_lsm 1 = [[0, 0], [0, 0]] \<and>
   flag_and_mask (check_by_mask mask_tracks ot example_run example_lsm 1 50 (1 / 2)) =
     Inr (mask_tracks [[1, 1], [0, 0]] [[- 10, 10], [- 10, 10]] [[60, 60], [70, 70]] (lonlat_c ot) 50000
            < 1 / 2,
          Some [[1, 1], [0, 0]])"
  by (simp add: check_by_mask_def flag_and_mask_def build_themask_def meshgrid_def
      inner_region_def truthy_def example_run_def example_lsm_def zeros_like_def
      assign_outside_def combine_mask_def norm_index_def py_invert_def spec_mask_def
      outside_region_def)




text \<open>
  C10. A bound of \<open>trackrun.conf\<close> whose value is 0 is treated as an absent bound, for
  each of \<open>lon1\<close>, \<open>lon2\<close>, \<open>lat1\<close> and \<open>lat2\<close>: the flag and the stored mask are the
  same with the bound set to 0 and with the bound unset.
\<close>

theorem check_by_mask_falsy_bound:
  "flag_and_mask (check_by_mask mask_tracks ot (trackrun\<lparr>conf := (conf trackrun)\<lparr>lon1 := Some 0\<rparr>\<rparr>)
      lsm lmask_thresh rad mask_thresh) =
   flag_and_mask (check_by_mask mask_tracks ot (trackrun\<lparr>conf := (conf trackrun)\<lparr>lon1 := None\<rparr>\<rparr>)
      lsm lmask_thresh rad mask_thresh) \<and>
   flag_and_mask (check_by_mask mask_tracks ot (trackrun\<lparr>conf := (conf trackrun)\<lparr>lon2 := Some 0\<rparr>\<rparr>)
      lsm lmask_thresh rad mask_thresh) =
   flag_and_mask (check_by_mask mask_tracks ot (trackrun\<lparr>conf := (conf trackrun)\<lparr>lon2 := None\<rparr>\<rparr>)
      lsm lmask_thresh rad mask_thresh) \<and>
   flag_and_mask (check_by_mask mask_tracks ot (trackrun\<lparr>conf := (conf trackrun)\<lparr>lat1 := Some 0\<rparr>\<rparr>)
      lsm lmask_thresh rad mask_thresh) =
   flag_and_mask (check_by_mask mask_tracks ot (trackrun\<lparr>conf := (conf trackrun)\<lparr>lat1 := None\<rparr>\<rparr>)
      lsm lmask_thresh rad mask_thresh) \<and>
   flag_and_mask (check_by_mask mask_tracks ot (trackrun\<lparr>conf := (conf trackrun)\<lparr>lat2 := Some 0\<rparr>\<rparr>)
      lsm lmask_thresh rad mask_thresh) =
   flag_and_mask (check_by_mask mask_tracks ot (trackrun\<lparr>conf := (conf trackrun)\<lparr>lat2 := None\<rparr>\<rparr>)
      lsm lmask_thresh rad mask_thresh)"
  by (intro conjI check_by_mask_same_mask) (simp_all add: build_themask_falsy)

theorem check_by_mask_falsy_bound_witness:
  "flag_and_mask (check_by_mask example_mask_tracks (snd (example_tracks ! 0))
      (example_bounded_run\<lparr>conf := (conf example_bounded_run)\<lparr>lon1 := Some 0\<rparr>\<rparr>)
      example_lsm 1 50 (1 / 2)) = Inr (True, Some [[0, 0], [1, 1]]) \<and>
   flag_and_mask (check_by_mask example_mask_tracks (snd (example_tracks ! 0))
      (example_bounded_run\<lparr>conf := (conf example_bounded_run)\<lparr>lon1 := None\<rparr>\<rparr>)
      example_lsm 1 50 (1 / 2)) = Inr (True, Some [[0, 0], [1, 1]])"
proof -
  have "flag_and_mask (check_by_mask example_mask_tracks (snd (example_tracks ! 0))
      (example_bounded_run\<lparr>conf := (conf example_bounded_run)\<lparr>lon1 := None\<rparr>\<rparr>)
      example_lsm 1 50 (1 / 2)) = Inr (True, Some [[0, 0], [1, 1]])"
    by (simp add: check_by_mask_def flag_and_mask_def build_themask_def meshgrid_def
        inner_region_def truthy_def example_bounded_run_def example_conf_def example_lsm_def
        and_assign_def geq_grid_def leq_grid_def zeros_like_def assign_outside_def
        combine_mask_def example_mask_tracks_def example_run_def)
  with check_by_mask_falsy_bound[of example_mask_tracks "snd (example_tracks ! 0)"
      example_bounded_run example_lsm 1 50 "1 / 2"]
  show ?thesis by simp
qed

section \<open>The claims on \<open>check_far_from_boundaries\<close>\<close>

lemma map_rows_total:
  "\<forall>r\<in>set ot. f r = Inr (g r) \<Longrightarrow> map_rows f ot = Inr (map g ot)"
  by (induction ot) simp_all

lemma apply_axis1_total:
  "ot \<noteq> [] \<Longrightarrow> \<forall>r\<in>set ot. f r = Inr (g r) \<Longrightarrow> apply_axis1 f ot = Inr (map g ot)"
  using map_rows_total[of ot f g] by (cases ot) (simp_all add: apply_axis1_def)

lemma edge_func_lon:
  "i < 2 \<Longrightarrow> edge_func gc i ll r = Inr (gc ll (lon r) (lat r) (lat r))"
  by (simp add: edge_func_def Let_def)

lemma edge_func_lat:
  "2 \<le> i \<Longrightarrow> i < 4 \<Longrightarrow> edge_func gc i ll r = Inr (gc (lon r) (lon r) ll (lat r))"
proof -
  assume "2 \<le> i" "i < 4"
  then have "i div 2 = 1" by linarith
  then show ?thesis by (simp add: edge_func_def Let_def)
qed

lemma edge_func_beyond: "4 \<le> i \<Longrightarrow> edge_func gc i ll r = Inl IndexError"
proof -
  assume "4 \<le> i"
  then have "2 \<le> i div 2" by linarith
  then show ?thesis by (simp add: edge_func_def Let_def)
qed

lemma edge_loop_four:
  assumes "ot \<noteq> []"
  shows "edge_loop gc ot dist' result [(0, b0), (1, b1), (2, b2), (3, b3)] =
     Inr (result \<and> list_all (\<lambda>r. dist' < gc b0 (lon r) (lat r) (lat r)) ot \<and>
          list_all (\<lambda>r. dist' < gc b1 (lon r) (lat r) (lat r)) ot \<and>
          list_all (\<lambda>r. dist' < gc (lon r) (lon r) b2 (lat r)) ot \<and>
          list_all (\<lambda>r. dist' < gc (lon r) (lon r) b3 (lat r)) ot)"
proof -
  have e0: "apply_axis1 (edge_func gc 0 b0) ot = Inr (map (\<lambda>r. gc b0 (lon r) (lat r) (lat r)) ot)"
    using assms by (intro apply_axis1_total) (simp_all add: edge_func_lon)
  have e1: "apply_axis1 (edge_func gc 1 b1) ot = Inr (map (\<lambda>r. gc b1 (lon r) (lat r) (lat r)) ot)"
    using assms by (intro apply_axis1_total) (simp_all add: edge_func_lon)
  have e2: "apply_axis1 (edge_func gc 2 b2) ot = Inr (map (\<lambda>r. gc (lon r) (lon r) b2 (lat r)) ot)"
    using assms by (intro apply_axis1_total) (simp_all add: edge_func_lat)
  have e3: "apply_axis1 (edge_func gc 3 b3) ot = Inr (map (\<lambda>r. gc (lon r) (lon r) b3 (lat r)) ot)"
    using assms by (intro apply_axis1_total) (simp_all add: edge_func_lat)
  have "edge_loop gc ot dist' result [(0, b0), (1, b1), (2, b2), (3, b3)] =
     Inr ((((result \<and> list_all (\<lambda>d. d > dist') (map (\<lambda>r. gc b0 (lon r) (lat r) (lat r)) ot)) \<and>
          list_all (\<lambda>d. d > dist') (map (\<lambda>r. gc b1 (lon r) (lat r) (lat r)) ot)) \<and>
          list_all (\<lambda>d. d > dist') (map (\<lambda>r. gc (lon r) (lon r) b2 (lat r)) ot)) \<and>
          list_all (\<lambda>d. d > dist') (map (\<lambda>r. gc (lon r) (lon r) b3 (lat r)) ot))"
    by (simp only: edge_loop.simps e0 e1 e2 e3 sum.case)
  then show ?thesis
    by (simp add: list_all_iff conj_assoc)
qed


lemma check_far_from_boundaries_four:
  assumes "ot \<noteq> []"
  shows "check_far_from_boundaries gc ot [b0, b1, b2, b3] dist' =
     Inr (list_all (inside_box [b0, b1, b2, b3]) ot \<and>
          list_all (farther_than gc [b0, b1, b2, b3] dist') ot)"
proof -
  have idx: "py_index [b0, b1, b2, b3] 0 = Inr b0" "py_index [b0, b1, b2, b3] 1 = Inr b1"
    "py_index [b0, b1, b2, b3] 2 = Inr b2" "py_index [b0, b1, b2, b3] 3 = Inr b3"
    by (simp_all add: py_index_def norm_index_def)
  have en: "enumerate 0 [b0, b1, b2, b3] = [(0, b0), (1, b1), (2, b2), (3, b3)]"
    by (simp add: enumerate_eq_zip upt_rec numeral_eq_Suc)
  have ins: "list_all (\<lambda>r. b0 \<le> lon r \<and> lon r \<le> b1 \<and> b2 \<le> lat r \<and> lat r \<le> b3) ot =
        list_all (inside_box [b0, b1, b2, b3]) ot"
    by (simp add: list_all_iff inside_box_def)
  have far: "(list_all (\<lambda>r. dist' < gc b0 (lon r) (lat r) (lat r)) ot \<and>
          list_all (\<lambda>r. dist' < gc b1 (lon r) (lat r) (lat r)) ot \<and>
          list_all (\<lambda>r. dist' < gc (lon r) (lon r) b2 (lat r)) ot \<and>
          list_all (\<lambda>r. dist' < gc (lon r) (lon r) b3 (lat r)) ot) =
        list_all (farther_than gc [b0, b1, b2, b3] dist') ot"
    by (auto simp: farther_than_def list_all_iff)
  show ?thesis
    unfolding check_far_from_boundaries_def idx Let_def en edge_loop_four[OF assms] far
    using ins by auto
qed

lemma check_far_from_boundaries_short:
  "length lonlat_box < 4 \<Longrightarrow> check_far_from_boundaries gc ot lonlat_box dist' = Inl IndexError"
  by (auto simp: check_far_from_boundaries_def py_index_def norm_index_def split: sum.splits)

section \<open>The great-circle distance along a meridian and along a parallel\<close>

lemma great_circle_same_lon:
  "great_circle r x x c d = 2 * arcsin \<bar>sin ((deg2rad d - deg2rad c) / 2)\<bar> * r"
  by (simp add: great_circle_def)

lemma great_circle_same_lat:
  "great_circle r a b y y =
     2 * arcsin \<bar>cos (deg2rad y) * sin ((deg2rad b - deg2rad a) / 2)\<bar> * r"
proof -
  have "cos (deg2rad y) * cos (deg2rad y) * (sin ((deg2rad b - deg2rad a) / 2))\<^sup>2 =
        (cos (deg2rad y) * sin ((deg2rad b - deg2rad a) / 2))\<^sup>2"
    by (simp add: power2_eq_square)
  then show ?thesis by (simp add: great_circle_def)
qed

lemma great_circle_same_point: "great_circle r x x y y = 0"
  by (simp add: great_circle_same_lon)

lemma abs_cos_sin_le_one: "\<bar>cos u * sin v\<bar> \<le> (1::real)"
proof -
  have "\<bar>cos u\<bar> * \<bar>sin v\<bar> \<le> 1 * 1"
    by (intro mult_mono) simp_all
  then show ?thesis by (simp add: abs_mult)
qed

lemma great_circle_same_lon_nonneg: "0 \<le> r \<Longrightarrow> 0 \<le> great_circle r x x c d"
  by (simp add: great_circle_same_lon arcsin_nonneg)

lemma great_circle_same_lat_nonneg: "0 \<le> r \<Longrightarrow> 0 \<le> great_circle r a b y y"
  by (simp add: great_circle_same_lat arcsin_nonneg abs_cos_sin_le_one)






text \<open>
  A point on an edge with \<open>dist = 0\<close> is inside the box and at distance at least \<open>dist\<close>
  from every edge, and the result is false; with a negative \<open>dist\<close> the result for the
  same point is true.
\<close>

lemma check_far_from_boundaries_edge_zero_dist:
  "list_all (inside_box example_box) example_edge_track \<and>
   list_all (at_least_dist (great_circle EARTH_RADIUS) example_box 0) example_edge_track \<and>
   check_far_from_boundaries (great_circle EARTH_RADIUS) example_edge_track example_box 0 =
     Inr False"
proof -
  have r: "0 \<le> EARTH_RADIUS" by (simp add: EARTH_RADIUS_def)
  have "list_all (inside_box example_box) example_edge_track"
    by (simp add: inside_box_def example_box_def example_edge_track_def)
  moreover have "list_all (at_least_dist (great_circle EARTH_RADIUS) example_box 0) example_edge_track"
    by (simp add: at_least_dist_def example_box_def example_edge_track_def
        great_circle_same_lat_nonneg[OF r] great_circle_same_lon_nonneg[OF r])
  moreover have "\<not> list_all (farther_than (great_circle EARTH_RADIUS) example_box 0) example_edge_track"
    by (simp add: farther_than_def example_box_def example_edge_track_def great_circle_same_point)
  ultimately show ?thesis
    using check_far_from_boundaries_four[of example_edge_track "great_circle EARTH_RADIUS"
        "- 10" 20 60 80 0]
    by (simp add: example_box_def example_edge_track_def)
qed

lemma check_far_from_boundaries_edge_negative_dist:
  "check_far_from_boundaries (great_circle EARTH_RADIUS) example_edge_track example_box (- 1) =
     Inr True"
proof -
  have r: "0 \<le> EARTH_RADIUS" by (simp add: EARTH_RADIUS_def)
  have "- 1 < great_circle EARTH_RADIUS a b y y" for a b y
    using great_circle_same_lat_nonneg[OF r, of a b y] by simp
  moreover have "- 1 < great_circle EARTH_RADIUS x x c d" for x c d
    using great_circle_same_lon_nonneg[OF r, of x c d] by simp
  ultimately
  have "list_all (farther_than (great_circle EARTH_RADIUS) example_box (- 1)) example_edge_track"
    by (simp add: farther_than_def example_box_def example_edge_track_def)
  moreover have "list_all (inside_box example_box) example_edge_track"
    by (simp add: inside_box_def example_box_def example_edge_track_def)
  ultimately show ?thesis
    using check_far_from_boundaries_four[of example_edge_track "great_circle EARTH_RADIUS"
        "- 10" 20 60 80 "- 1"]
    by (simp add: example_box_def example_edge_track_def)
qed





end
